theory Spec2Isabelle
  imports Main "HOL-Library.Code_Target_Numeral"
begin

text \<open>
  The class ModelAbstract: a facade between application code and one collection of a
  document store. It binds the collection handle (\<open>init\<close>), creates the declared indexes
  that the store lacks (\<open>ensureIndexes\<close>), and passes single calls on to the driver
  (\<open>insertOne\<close>, \<open>findOneAndUpdate\<close>, \<open>findOne\<close>, \<open>findOneById\<close>, \<open>find\<close>, \<open>updateOne\<close>,
  \<open>removeOne\<close>, \<open>count\<close>, \<open>aggregate\<close>), each with a debug timer around it. Every operation is
  modelled with the promise it returns and the trace of what it did.
\<close>

section \<open>JavaScript values\<close>

text \<open>
  The facade is JavaScript: its arguments, the answers of the store driver and the values
  it rejects with are arbitrary JavaScript values. Numbers are the integers that a double
  holds (fractions, NaN and the infinities are not represented), and a text is a list of
  code units below 256. An object is either written out by value (\<open>JObj\<close>, an object
  nobody else holds, so that a write to it is seen only through the variable written) or
  held by reference (\<open>JRef a\<close>, the object in cell \<open>a\<close> of the object store), which is
  how a caller's own object is passed. An array carries its elements and the named
  properties set on it. Objects and arrays are data: their properties are values, and the
  methods they inherit (\<open>toString\<close>, \<open>valueOf\<close>, \<open>join\<close>) are the built-in ones.
\<close>

datatype jsval =
    JUndefined
  | JNull
  | JBool bool
  | JNum int
  | JStr string
  | JArr "jsval list" "(string \<times> jsval) list"
  | JObj "(string \<times> jsval) list"
  | JRef nat

type_synonym props = "(string \<times> jsval) list"

type_synonym heap = "props list"

text \<open>A cell that the object store does not hold reads as an object without properties.\<close>

definition cell :: "heap \<Rightarrow> nat \<Rightarrow> props" where
  "cell h a = (if a < length h then h ! a else [])"

text \<open>Writing a cell that the object store does not hold yet makes it.\<close>

definition heap_put :: "heap \<Rightarrow> nat \<Rightarrow> props \<Rightarrow> heap" where
  "heap_put h a ps =
     (if a < length h then h[a := ps] else h @ replicate (a - length h) [] @ [ps])"

text \<open>\<open>!v\<close> is \<open>\<not> truthy v\<close>.\<close>

fun truthy :: "jsval \<Rightarrow> bool" where
  "truthy JUndefined = False"
| "truthy JNull = False"
| "truthy (JBool b) = b"
| "truthy (JNum n) = (n \<noteq> 0)"
| "truthy (JStr s) = (s \<noteq> [])"
| "truthy (JArr xs ps) = True"
| "truthy (JObj ps) = True"
| "truthy (JRef a) = True"

definition nullish :: "jsval \<Rightarrow> bool" where
  "nullish v = (v = JUndefined \<or> v = JNull)"

definition lookup :: "props \<Rightarrow> string \<Rightarrow> jsval" where
  "lookup ps k = (case map_of ps k of None \<Rightarrow> JUndefined | Some v \<Rightarrow> v)"

fun put :: "props \<Rightarrow> string \<Rightarrow> jsval \<Rightarrow> props" where
  "put [] k v = [(k, v)]"
| "put (p # ps) k v = (if fst p = k then (k, v) # ps else p # put ps k v)"

definition digit_char :: "nat \<Rightarrow> char" where
  "digit_char d = ''0123456789'' ! d"

fun dec_nat :: "nat \<Rightarrow> string" where
  "dec_nat n = (if n < 10 then [digit_char n] else dec_nat (n div 10) @ [digit_char (n mod 10)])"

declare dec_nat.simps [simp del]

text \<open>The TypeError the engine raises; the wording of its message is the engine's.\<close>

definition type_error :: "string \<Rightarrow> jsval" where
  "type_error m = JObj [(''name'', JStr ''TypeError''), (''message'', JStr m)]"

text \<open>
  \<open>v.k\<close> for an identifier \<open>k\<close> that names a value, on what is neither \<open>null\<close> nor
  \<open>undefined\<close>. The facade reads no inherited method.
\<close>

fun prop_of :: "heap \<Rightarrow> jsval \<Rightarrow> string \<Rightarrow> jsval" where
  "prop_of h (JObj ps) k = lookup ps k"
| "prop_of h (JRef a) k = lookup (cell h a) k"
| "prop_of h (JArr xs ps) k = (if k = ''length'' then JNum (int (length xs)) else lookup ps k)"
| "prop_of h (JStr s) k = (if k = ''length'' then JNum (int (length s)) else JUndefined)"
| "prop_of h v k = JUndefined"

text \<open>\<open>v.k\<close> on any value: reading a property of \<open>null\<close> or \<open>undefined\<close> throws.\<close>

definition get_prop :: "heap \<Rightarrow> jsval \<Rightarrow> string \<Rightarrow> jsval + jsval" where
  "get_prop h v k =
     (if nullish v then Inl (type_error (''Cannot read property '' @ k @ '' of '' @
                                          (if v = JNull then ''null'' else ''undefined'')))
      else Inr (prop_of h v k))"

text \<open>
  \<open>v.k = x\<close> for an identifier \<open>k\<close>, in strict mode (the file starts with "use strict"):
  the object store and the variable after the write. Writing a property of \<open>null\<close>,
  \<open>undefined\<close> or a primitive value throws.
\<close>

fun set_prop :: "heap \<Rightarrow> jsval \<Rightarrow> string \<Rightarrow> jsval \<Rightarrow> jsval + heap \<times> jsval" where
  "set_prop h (JRef a) k x = Inr (heap_put h a (put (cell h a) k x), JRef a)"
| "set_prop h (JObj ps) k x = Inr (h, JObj (put ps k x))"
| "set_prop h (JArr xs ps) k x = Inr (h, JArr xs (put ps k x))"
| "set_prop h v k x = Inl (type_error (''Cannot set property '' @ k))"

subsection \<open>Conversion to text\<close>

text \<open>
  \<open>Number::toString\<close> of an integer \<open>v\<close> that a double holds: the decimal of fewest
  significant digits that reads back as \<open>v\<close>, the one nearest to \<open>v\<close> if there are two,
  the even one if both are as near. It is written in full when it has at most 21 digits
  and with an exponent otherwise.

  The double \<open>v\<close> is \<open>m * 2 ^ e\<close> with \<open>m < 2 ^ 53\<close>; the doubles next to it are
  \<open>2 ^ e\<close> away, the one below \<open>2 ^ e / 2\<close> away when \<open>m = 2 ^ 52\<close>. A decimal reads back
  as \<open>v\<close> when it is nearer to \<open>v\<close> than to both, or half way and \<open>m\<close> is even.
  \<open>reads_back v c\<close> compares four times the distances, which are integers.
\<close>

fun bit_length :: "nat \<Rightarrow> nat" where
  "bit_length n = (if n = 0 then 0 else Suc (bit_length (n div 2)))"

declare bit_length.simps [simp del]

definition reads_back :: "nat \<Rightarrow> nat \<Rightarrow> bool" where
  "reads_back v c =
     (let e = bit_length v - 53;
          m = v div 2 ^ e;
          below = (if m = 2 ^ 52 then 2 ^ e else 2 ^ (e + 1));
          above = 2 ^ (e + 1)
      in if even m then 4 * v \<le> 4 * c + below \<and> 4 * c \<le> 4 * v + above
         else 4 * v < 4 * c + below \<and> 4 * c < 4 * v + above)"

text \<open>
  \<open>shortest v j\<close>: the decimal for \<open>v\<close> among the multiples of \<open>10 ^ i\<close>, for the
  greatest \<open>i \<le> j\<close> that has one.
\<close>

fun shortest :: "nat \<Rightarrow> nat \<Rightarrow> nat" where
  "shortest v 0 = v"
| "shortest v (Suc j) =
     (let p = 10 ^ Suc j;
          a = (v div p) * p;
          b = a + p;
          oka = (0 < a \<and> reads_back v a);
          okb = reads_back v b
      in if oka \<and> okb then
           (if v - a < b - v then a
            else if b - v < v - a then b
            else if even (a div p) then a else b)
         else if oka then a
         else if okb then b
         else shortest v j)"

definition strip_zeros :: "string \<Rightarrow> string" where
  "strip_zeros s = rev (dropWhile (\<lambda>c. c = CHR ''0'') (rev s))"

definition number_text :: "nat \<Rightarrow> string" where
  "number_text v =
     (let ds = dec_nat (shortest v (length (dec_nat v)));
          n = length ds
      in if n \<le> 21 then ds
         else (case strip_zeros ds of
                 [] \<Rightarrow> ds
               | d # rest \<Rightarrow>
                   d # (if rest = [] then [] else CHR ''.'' # rest) @ ''e+'' @ dec_nat (n - 1)))"

text \<open>
  \<open>v[i]\<close> for an index \<open>i\<close>, on a value that is neither \<open>null\<close> nor \<open>undefined\<close>: the
  element of an array or of a text, and of an object the property named by the text of
  \<open>i\<close>.
\<close>

fun at_index :: "heap \<Rightarrow> jsval \<Rightarrow> nat \<Rightarrow> jsval" where
  "at_index h (JArr xs ps) i = (if i < length xs then xs ! i else JUndefined)"
| "at_index h (JObj ps) i = lookup ps (number_text i)"
| "at_index h (JRef a) i = lookup (cell h a) (number_text i)"
| "at_index h (JStr s) i = (if i < length s then JStr [s ! i] else JUndefined)"
| "at_index h v i = JUndefined"

definition dec_int :: "int \<Rightarrow> string" where
  "dec_int i = (if i < 0 then CHR ''-'' # number_text (nat (- i)) else number_text (nat i))"

text \<open>
  \<open>ToString\<close>, as string concatenation and template literals apply it. Objects are plain
  data, with the methods they inherit: the text of an object is \<open>[object Object]\<close>, that
  of an array its elements joined by commas.
\<close>

fun js_to_string :: "jsval \<Rightarrow> string" and js_join :: "jsval list \<Rightarrow> string" where
  "js_to_string JUndefined = ''undefined''"
| "js_to_string JNull = ''null''"
| "js_to_string (JBool b) = (if b then ''true'' else ''false'')"
| "js_to_string (JNum n) = dec_int n"
| "js_to_string (JStr s) = s"
| "js_to_string (JArr xs ps) = js_join xs"
| "js_to_string (JObj ps) = ''[object Object]''"
| "js_to_string (JRef a) = ''[object Object]''"
| "js_join [] = ''''"
| "js_join (x # xs) =
     (if x = JUndefined \<or> x = JNull then '''' else js_to_string x) @
     (if xs = [] then '''' else CHR '','' # js_join xs)"

subsection \<open>Comparison with a number\<close>

text \<open>
  \<open>ToNumber\<close> of a string reads a numeric literal between white space: digits in base 16,
  8 or 2 after \<open>0x\<close>, \<open>0o\<close> or \<open>0b\<close>, or a signed decimal literal with an optional
  fraction and an optional exponent. The white space and the line terminators among the
  code units below 256 are five control characters, the space and the no-break space.
\<close>

definition is_space :: "char \<Rightarrow> bool" where
  "is_space c =
     (c \<in> set [CHR 0x09, CHR 0x0A, CHR 0x0B, CHR 0x0C, CHR 0x0D, CHR 0x20, CHR 0xA0])"

definition trim :: "string \<Rightarrow> string" where
  "trim s = rev (dropWhile is_space (rev (dropWhile is_space s)))"

text \<open>The value of a digit: \<open>0\<close> to \<open>9\<close>, \<open>A\<close> to \<open>F\<close>, \<open>a\<close> to \<open>f\<close>.\<close>

definition digit_val :: "char \<Rightarrow> nat option" where
  "digit_val c =
     (let n = (of_char c :: nat)
      in if 48 \<le> n \<and> n \<le> 57 then Some (n - 48)
         else if 65 \<le> n \<and> n \<le> 70 then Some (n - 55)
         else if 97 \<le> n \<and> n \<le> 102 then Some (n - 87)
         else None)"

fun digits_val :: "nat \<Rightarrow> nat \<Rightarrow> string \<Rightarrow> nat option" where
  "digits_val b acc [] = Some acc"
| "digits_val b acc (c # cs) =
     (case digit_val c of
        None \<Rightarrow> None
      | Some d \<Rightarrow> if d < b then digits_val b (b * acc + d) cs else None)"

text \<open>One digit of the base \<open>b\<close> at least.\<close>

definition unsigned_val :: "nat \<Rightarrow> string \<Rightarrow> nat option" where
  "unsigned_val b s = (if s = [] then None else digits_val b 0 s)"

definition is_digit :: "char \<Rightarrow> bool" where
  "is_digit c = (case digit_val c of None \<Rightarrow> False | Some d \<Rightarrow> d < 10)"

text \<open>The literals of base 16, 8 and 2; they take no sign.\<close>

definition radix_literal :: "string \<Rightarrow> nat option" where
  "radix_literal s =
     (case s of
        c0 # c1 # cs \<Rightarrow>
          if c0 \<noteq> CHR ''0'' then None
          else if c1 = CHR ''x'' \<or> c1 = CHR ''X'' then unsigned_val 16 cs
          else if c1 = CHR ''o'' \<or> c1 = CHR ''O'' then unsigned_val 8 cs
          else if c1 = CHR ''b'' \<or> c1 = CHR ''B'' then unsigned_val 2 cs
          else None
      | _ \<Rightarrow> None)"

text \<open>The exponent after the digits: nothing, or \<open>e\<close> and a signed integer.\<close>

definition exponent_part :: "string \<Rightarrow> int option" where
  "exponent_part s =
     (case s of
        [] \<Rightarrow> Some 0
      | c # cs \<Rightarrow>
          if c = CHR ''e'' \<or> c = CHR ''E'' then
            (case cs of
               [] \<Rightarrow> None
             | d # ds \<Rightarrow>
                 if d = CHR ''-'' then map_option (\<lambda>n. - int n) (unsigned_val 10 ds)
                 else if d = CHR ''+'' then map_option int (unsigned_val 10 ds)
                 else map_option int (unsigned_val 10 cs))
          else None)"

text \<open>
  An unsigned decimal literal, \<open>digits\<close>, \<open>digits.\<close>, \<open>digits.digits\<close> or \<open>.digits\<close> with
  an optional exponent: \<open>(m, k)\<close> for the value \<open>m * 10 ^ k\<close>.
\<close>

definition decimal_literal :: "string \<Rightarrow> (nat \<times> int) option" where
  "decimal_literal s =
     (let whole = takeWhile is_digit s;
          r1 = dropWhile is_digit s;
          dotted = (r1 \<noteq> [] \<and> hd r1 = CHR ''.'');
          frac = (if dotted then takeWhile is_digit (tl r1) else []);
          r2 = (if dotted then dropWhile is_digit (tl r1) else r1)
      in if whole = [] \<and> frac = [] then None
         else (case (digits_val 10 0 (whole @ frac), exponent_part r2) of
                 (Some m, Some x) \<Rightarrow> Some (m, x - int (length frac))
               | _ \<Rightarrow> None))"

text \<open>
  The number that a literal denotes is the double nearest to its value, the even one of
  two that are as near. The doubles next to 11000 are \<open>1 / 2 ^ 39\<close> away and 11000 is the
  even one, so \<open>m * 10 ^ k\<close> denotes 11000 when it is \<open>1 / 2 ^ 40\<close> or less away from it.
\<close>

definition reads_as_11000 :: "nat \<times> int \<Rightarrow> bool" where
  "reads_as_11000 mk =
     (let m = fst mk; k = snd mk
      in if 0 \<le> k then m * 10 ^ nat k = 11000
         else (let d = 10 ^ nat (- k) in \<bar>int m - 11000 * d\<bar> * 2 ^ 40 \<le> d))"

text \<open>
  \<open>ToNumber(s) == 11000\<close>. The empty text is the number 0; a text that is no literal, a
  literal with a minus sign and \<open>Infinity\<close> are not 11000.
\<close>

definition str_eq_11000 :: "string \<Rightarrow> bool" where
  "str_eq_11000 s =
     (let t = trim s
      in case radix_literal t of
           Some n \<Rightarrow> n = 11000
         | None \<Rightarrow>
            (case t of
               [] \<Rightarrow> False
             | c # cs \<Rightarrow>
                 if c = CHR ''-'' then False
                 else (case decimal_literal (if c = CHR ''+'' then cs else t) of
                         None \<Rightarrow> False
                       | Some mk \<Rightarrow> reads_as_11000 mk)))"

text \<open>
  \<open>v == 11000\<close>, the abstract equality comparison of line 147: a number is compared as
  it is, a string as the number it reads as, an array or an object as the number its text
  reads as (\<open>[object Object]\<close> reads as none); \<open>true\<close> is 1 and \<open>false\<close> is 0, \<open>null\<close>
  and \<open>undefined\<close> equal no number.
\<close>

fun loose_eq_11000 :: "jsval \<Rightarrow> bool" where
  "loose_eq_11000 (JNum m) = (m = 11000)"
| "loose_eq_11000 (JStr s) = str_eq_11000 s"
| "loose_eq_11000 (JArr xs ps) = str_eq_11000 (js_join xs)"
| "loose_eq_11000 (JObj ps) = str_eq_11000 ''[object Object]''"
| "loose_eq_11000 (JRef a) = str_eq_11000 ''[object Object]''"
| "loose_eq_11000 (JBool b) = False"
| "loose_eq_11000 JNull = False"
| "loose_eq_11000 JUndefined = False"

subsection \<open>JSON.stringify\<close>

text \<open>
  \<open>JSON.stringify\<close> throws a TypeError on an object that contains itself. An object by
  value cannot; an object of the object store can. \<open>json_ok n h v\<close> follows at most \<open>n\<close>
  references on every path through \<open>v\<close>; a path through more references than the store has
  cells visits one of them twice.
\<close>

fun json_ok :: "nat \<Rightarrow> heap \<Rightarrow> jsval \<Rightarrow> bool"
  and json_ok_list :: "nat \<Rightarrow> heap \<Rightarrow> jsval list \<Rightarrow> bool"
  and json_ok_props :: "nat \<Rightarrow> heap \<Rightarrow> props \<Rightarrow> bool" where
  "json_ok n h (JRef a) = (case n of 0 \<Rightarrow> False | Suc m \<Rightarrow> json_ok_props m h (cell h a))"
| "json_ok n h (JObj ps) = json_ok_props n h ps"
| "json_ok n h (JArr xs ps) = json_ok_list n h xs"
| "json_ok n h JUndefined = True"
| "json_ok n h JNull = True"
| "json_ok n h (JBool b) = True"
| "json_ok n h (JNum i) = True"
| "json_ok n h (JStr s) = True"
| "json_ok_list n h [] = True"
| "json_ok_list n h (x # xs) = (json_ok n h x \<and> json_ok_list n h xs)"
| "json_ok_props n h [] = True"
| "json_ok_props n h (p # ps) = (json_ok n h (snd p) \<and> json_ok_props n h ps)"

definition serialisable :: "heap \<Rightarrow> jsval \<Rightarrow> bool" where
  "serialisable h v = json_ok (Suc (length h)) h v"

text \<open>
  The text of a debug message is kept as its parts: the literal pieces of the template and
  the values that \<open>JSON.stringify\<close> is applied to.
\<close>

datatype text_part = Lit string | Json jsval

type_synonym message = "text_part list"

text \<open>\<open>_json(data)\<close>: \<open>JSON.stringify(data)\<close>.\<close>

definition json :: "heap \<Rightarrow> jsval \<Rightarrow> jsval + text_part" where
  "json h data =
     (if serialisable h data then Inr (Json data)
      else Inl (type_error ''Converting circular structure to JSON''))"

section \<open>Promises, the store driver and the trace\<close>

datatype promise = Pending | Fulfilled jsval | Rejected jsval

text \<open>
  \<open>Promise.all\<close>: rejected as soon as one of the promises is, fulfilled with the array of
  all values once all are. Which rejection comes first is a matter of time; the promises
  are taken to settle in the order of the list.
\<close>

fun values_of :: "promise list \<Rightarrow> jsval list option" where
  "values_of [] = Some []"
| "values_of (Fulfilled v # ps) = map_option ((#) v) (values_of ps)"
| "values_of (p # ps) = None"

fun first_rejection :: "promise list \<Rightarrow> jsval option" where
  "first_rejection [] = None"
| "first_rejection (Rejected e # ps) = Some e"
| "first_rejection (p # ps) = first_rejection ps"

datatype all_result = AllPending | AllRejected jsval | AllFulfilled "jsval list"

definition promise_all :: "promise list \<Rightarrow> all_result" where
  "promise_all ps =
     (case first_rejection ps of
        Some e \<Rightarrow> AllRejected e
      | None \<Rightarrow> (case values_of ps of None \<Rightarrow> AllPending | Some vs \<Rightarrow> AllFulfilled vs))"

text \<open>
  The store driver is a collaborator, not part of the facade: a call of a method of the
  collection handle is answered with a promise and moves the store to its next state. The
  driver is a parameter of every operation: its state, the collection, the method, the
  arguments and the object store as it is when the call is made. The driver does not write
  to the object store.
\<close>

type_synonym 's driver = "'s \<Rightarrow> jsval \<Rightarrow> string \<Rightarrow> jsval list \<Rightarrow> heap \<Rightarrow> promise \<times> 's"

record log_record =
  r_type :: string
  r_name :: string
  r_message :: message
  r_error :: "jsval option"

record cursor =
  cu_collection :: jsval
  cu_filter :: jsval
  cu_fields :: jsval
  cu_sort :: jsval
  cu_limit :: jsval
  cu_skip :: jsval

text \<open>
  The driver's cursor, likewise a parameter: its state, the cursor (what it was built from)
  and the method called on it.
\<close>

type_synonym 's cursor_driver = "'s \<Rightarrow> cursor \<Rightarrow> string \<Rightarrow> promise \<times> 's"

text \<open>
  What an operation does besides settling its promise, in order: the calls of the store and
  of its cursors, the terminal calls of its timer and the records handed to the sink.
\<close>

datatype event =
    StoreCall string "jsval list" heap
  | CursorCall string cursor
  | TimerStop string
  | TimerError string jsval
  | SinkLog log_record

text \<open>The calls of the store in a trace.\<close>

fun is_store_call :: "event \<Rightarrow> bool" where
  "is_store_call (StoreCall m args h) = True"
| "is_store_call e = False"

definition store_calls :: "event list \<Rightarrow> event list" where
  "store_calls es = filter is_store_call es"

text \<open>The terminal calls of timers and the records of the sink in a trace.\<close>

fun is_timer_end :: "event \<Rightarrow> bool" where
  "is_timer_end (TimerStop n) = True"
| "is_timer_end (TimerError n m) = True"
| "is_timer_end e = False"

fun is_record :: "event \<Rightarrow> bool" where
  "is_record (SinkLog r) = True"
| "is_record e = False"

section \<open>The facade\<close>

text \<open>
  \<open>_debugger\<close> is \<open>null\<close> (or another falsy value), or a value without a \<open>log\<close>, or a sink
  with its \<open>log\<close> function. The sink records what it is given and returns.
\<close>

datatype debugger = NoDebugger | LoglessDebugger | LoggingDebugger

record index_decl =
  i_fields :: jsval
  i_options :: props

text \<open>
  The fields of ModelAbstract. The collection handle that \<open>_db.collection(name)\<close> returns
  is identified with the name.
\<close>

record facade =
  collectionName :: jsval
  indexes :: "index_decl list option"
  collection :: "jsval option"
  debugger :: debugger

definition constructor :: facade where
  "constructor =
     \<lparr>collectionName = JNull, indexes = None, collection = None, debugger = NoDebugger\<rparr>"

definition setDebugger :: "facade \<Rightarrow> debugger \<Rightarrow> facade" where
  "setDebugger f d = f\<lparr>debugger := d\<rparr>"

text \<open>
  Modelled from the spec: the class ModelError (required from ./Error) is not among the
  sources. \<open>new ModelError(message, code)\<close> is the normalized error \<open>{message, code}\<close>.
\<close>

definition ModelError :: "jsval \<Rightarrow> jsval \<Rightarrow> jsval" where
  "ModelError m c = JObj [(''message'', m), (''code'', c)]"

text \<open>
  Modelled from the spec: the table ModelErrorCodes (required from ./ErrorCodes) is not
  among the sources. The code \<open>NO_COLLECTION_NAME\<close> is known by its name.
\<close>

definition NO_COLLECTION_NAME :: jsval where
  "NO_COLLECTION_NAME = JStr ''NO_COLLECTION_NAME''"

text \<open>
  Modelled from the spec: the code \<open>ALREADY_EXISTS\<close> of the same table, known by its name.
\<close>

definition ALREADY_EXISTS :: jsval where
  "ALREADY_EXISTS = JStr ''ALREADY_EXISTS''"

text \<open>\<open>init()\<close>: throws, or returns the facade with its collection handle bound.\<close>

definition init :: "facade \<Rightarrow> jsval + facade" where
  "init f =
     (if \<not> truthy (collectionName f)
      then Inl (ModelError (JStr ''no collection name for model'') NO_COLLECTION_NAME)
      else Inr (f\<lparr>collection := Some (collectionName f)\<rparr>))"

subsection \<open>The timer\<close>

text \<open>
  Modelled from the spec: the class DebugTimer (required from ../../Debug/Timer) is not
  among the sources. A timer has a category, a name and a message that may be set until it
  ends; \<open>stop()\<close> hands the record to the completion hook, \<open>error(message)\<close> hands it the
  record with the error. The elapsed time is not represented: where a record stands in the
  trace says when it was taken.
\<close>

record timer =
  t_type :: string
  t_name :: string
  t_message :: message

text \<open>\<open>_logDebug(data)\<close>\<close>

definition logDebug :: "facade \<Rightarrow> log_record \<Rightarrow> event list" where
  "logDebug f data = (case debugger f of LoggingDebugger \<Rightarrow> [SinkLog data] | _ \<Rightarrow> [])"

text \<open>\<open>_createTimer(name)\<close>; its completion hook is \<open>_logDebug\<close>.\<close>

definition createTimer :: "string \<Rightarrow> timer" where
  "createTimer name = \<lparr>t_type = ''mongo'', t_name = name, t_message = []\<rparr>"

text \<open>
  Modelled from the spec: \<open>timer.stop()\<close> of the absent DebugTimer invokes the completion
  hook with the record \<open>{category, name, message}\<close>.
\<close>

definition timer_stop :: "facade \<Rightarrow> timer \<Rightarrow> event list" where
  "timer_stop f t =
     TimerStop (t_name t) #
     logDebug f \<lparr>r_type = t_type t, r_name = t_name t, r_message = t_message t, r_error = None\<rparr>"

text \<open>
  Modelled from the spec: \<open>timer.error(message)\<close> of the absent DebugTimer invokes the
  completion hook with the record that carries the error.
\<close>

definition timer_error :: "facade \<Rightarrow> timer \<Rightarrow> jsval \<Rightarrow> event list" where
  "timer_error f t m =
     TimerError (t_name t) m #
     logDebug f \<lparr>r_type = t_type t, r_name = t_name t, r_message = t_message t, r_error = Some m\<rparr>"

text \<open>
  The debug messages of the shape \<open>k1=${_json(v1)} k2=${_json(v2)}\<close>: the text, or what
  the first failing \<open>_json\<close> throws.
\<close>

fun template :: "heap \<Rightarrow> (string \<times> jsval) list \<Rightarrow> jsval + message" where
  "template h [] = Inr []"
| "template h ((l, v) # r) =
     (case json h v of
        Inl x \<Rightarrow> Inl x
      | Inr j \<Rightarrow> (case template h r of Inl x \<Rightarrow> Inl x | Inr m \<Rightarrow> Inr (Lit l # j # m)))"

text \<open>
  The rejection handler that the operations other than \<open>insertOne\<close> share:
  \<open>timer.error(error.message); reject(error)\<close>. Reading \<open>error.message\<close> throws when the
  error is \<open>null\<close> or \<open>undefined\<close>; the handler then ends before it rejects.
\<close>

definition catch_error :: "facade \<Rightarrow> timer \<Rightarrow> heap \<Rightarrow> jsval \<Rightarrow> promise \<times> event list" where
  "catch_error f timer h error =
     (case get_prop h error ''message'' of
        Inl x \<Rightarrow> (Pending, [])
      | Inr m \<Rightarrow> (Rejected error, timer_error f timer m))"

subsection \<open>insertOne\<close>

text \<open>
  The rejection handler of \<open>insertOne\<close>. A handler that neither resolves nor rejects leaves
  the promise pending.
\<close>

definition is_conflict :: "heap \<Rightarrow> jsval \<Rightarrow> bool" where
  "is_conflict h error = (truthy (prop_of h error ''code'') \<and> loose_eq_11000 (prop_of h error ''code''))"

definition insertOne_catch ::
    "facade \<Rightarrow> timer \<Rightarrow> heap \<Rightarrow> jsval \<Rightarrow> jsval \<Rightarrow> promise \<times> event list" where
  "insertOne_catch f timer h data error =
     (if truthy error then
        (let e = (if is_conflict h error
                  then ModelError
                         (JStr (''record with id = '' @ js_to_string (prop_of h data ''id'') @
                                '' already exists''))
                         ALREADY_EXISTS
                  else error)
         in (Rejected e, timer_error f timer (prop_of h e ''message'')))
      else (Pending, []))"

text \<open>
  The first statement of \<open>insertOne\<close>: \<open>if (data.id) { data._id = data.id; }\<close>. The object
  store and \<open>data\<close> afterwards, or what is thrown.
\<close>

definition copy_id :: "heap \<Rightarrow> jsval \<Rightarrow> jsval + heap \<times> jsval" where
  "copy_id h data =
     (case get_prop h data ''id'' of
        Inl x \<Rightarrow> Inl x
      | Inr i \<Rightarrow> if truthy i then set_prop h data ''_id'' i else Inr (h, data))"

text \<open>
  \<open>insertOne(data, options)\<close>: the promise, the trace, the driver's state and the object
  store afterwards. Whatever the executor throws rejects the promise; what the fulfilment
  handler throws goes to the rejection handler.
\<close>

definition insertOne ::
    "'s driver \<Rightarrow> facade \<Rightarrow> 's \<Rightarrow> heap \<Rightarrow> jsval \<Rightarrow> jsval \<Rightarrow> promise \<times> event list \<times> 's \<times> heap" where
  "insertOne drv f s h data opts =
     (let timer = createTimer ''insertOne'' in
      case copy_id h data of
        Inl x \<Rightarrow> (Rejected x, [], s, h)
      | Inr (h1, data1) \<Rightarrow>
         (case json h1 data1 of
            Inl x \<Rightarrow> (Rejected x, [], s, h1)
          | Inr j \<Rightarrow>
             (let timer = timer\<lparr>t_message :=
                    [Lit ''db.'', Lit (js_to_string (collectionName f)), Lit ''.insert('',
                     j, Lit '')'']\<rparr>
              in case collection f of
                   None \<Rightarrow>
                     (Rejected (type_error ''Cannot read property insertOne of null''),
                      [], s, h1)
                 | Some c \<Rightarrow>
                    (let (p, s1) = drv s c ''insertOne'' [data1] h1;
                         call = StoreCall ''insertOne'' [data1] h1
                     in case p of
                          Pending \<Rightarrow> (Pending, [call], s1, h1)
                        | Fulfilled result \<Rightarrow>
                            (case get_prop h1 result ''ops'' of
                               Inl x \<Rightarrow>
                                 (let (q, es) = insertOne_catch f timer h1 data1 x
                                  in (q, call # timer_stop f timer @ es, s1, h1))
                             | Inr ops \<Rightarrow>
                                 (if truthy ops \<and> truthy (at_index h1 ops 0)
                                  then Fulfilled (at_index h1 ops 0)
                                  else Fulfilled JNull,
                                  call # timer_stop f timer, s1, h1))
                        | Rejected error \<Rightarrow>
                            (let (q, es) = insertOne_catch f timer h1 data1 error
                             in (q, call # es, s1, h1))))))"

subsection \<open>findOneAndUpdate\<close>

text \<open>The defaulting of \<open>options\<close>, before the promise is made: what it throws is thrown.\<close>

definition default_options :: "heap \<Rightarrow> jsval \<Rightarrow> jsval + heap \<times> jsval" where
  "default_options h opts =
     (if \<not> truthy opts then Inr (h, JObj [(''returnOriginal'', JBool False)])
      else if prop_of h opts ''returnOriginal'' = JUndefined
      then set_prop h opts ''returnOriginal'' (JBool False)
      else Inr (h, opts))"

text \<open>
  What the driver makes of the options of \<open>findOneAndUpdate\<close>: it returns the document as
  updated when \<open>returnOriginal\<close> is there and falsy
  (\<open>returnOriginal !== undefined ? !returnOriginal : false\<close>), the original otherwise.
\<close>

definition asks_for_updated :: "heap \<Rightarrow> jsval \<Rightarrow> bool" where
  "asks_for_updated h options =
     (prop_of h options ''returnOriginal'' \<noteq> JUndefined \<and>
      \<not> truthy (prop_of h options ''returnOriginal''))"

definition findOneAndUpdate ::
    "'s driver \<Rightarrow> facade \<Rightarrow> 's \<Rightarrow> heap \<Rightarrow> jsval \<Rightarrow> jsval \<Rightarrow> jsval \<Rightarrow>
     (jsval + promise) \<times> event list \<times> 's \<times> heap" where
  "findOneAndUpdate drv f s h fltr update opts =
     (let timer = createTimer ''findOneAndUpdate'' in
      case default_options h opts of
        Inl x \<Rightarrow> (Inl x, [], s, h)
      | Inr (h1, options) \<Rightarrow>
         (case template h1 [(''filter='', fltr), ('' update='', update), ('' options='', options)] of
            Inl x \<Rightarrow> (Inl x, [], s, h1)
          | Inr m \<Rightarrow>
             (let timer = timer\<lparr>t_message := m\<rparr>
              in case collection f of
                   None \<Rightarrow>
                     (Inr (Rejected (type_error ''Cannot read property findOneAndUpdate of null'')),
                      [], s, h1)
                 | Some c \<Rightarrow>
                    (let (p, s1) = drv s c ''findOneAndUpdate'' [fltr, update, options] h1;
                         call = StoreCall ''findOneAndUpdate'' [fltr, update, options] h1
                     in case p of
                          Pending \<Rightarrow> (Inr Pending, [call], s1, h1)
                        | Fulfilled data \<Rightarrow> (Inr (Fulfilled data), call # timer_stop f timer, s1, h1)
                        | Rejected error \<Rightarrow>
                            (let (q, es) = catch_error f timer h1 error
                             in (Inr q, call # es, s1, h1))))))"

subsection \<open>findOne, findOneById\<close>

definition findOne ::
    "'s driver \<Rightarrow> facade \<Rightarrow> 's \<Rightarrow> heap \<Rightarrow> jsval \<Rightarrow> jsval \<Rightarrow> promise \<times> event list \<times> 's" where
  "findOne drv f s h query opts =
     (let timer = createTimer ''findOne'' in
      case template h [(''query='', query), ('' options='', opts)] of
        Inl x \<Rightarrow> (Rejected x, [], s)
      | Inr m \<Rightarrow>
         (let timer = timer\<lparr>t_message := m\<rparr>
          in case collection f of
               None \<Rightarrow> (Rejected (type_error ''Cannot read property findOne of null''), [], s)
             | Some c \<Rightarrow>
                (let (p, s1) = drv s c ''findOne'' [query, opts] h;
                     call = StoreCall ''findOne'' [query, opts] h
                 in case p of
                      Pending \<Rightarrow> (Pending, [call], s1)
                    | Fulfilled doc \<Rightarrow>
                        (if truthy doc then Fulfilled doc else Fulfilled JNull,
                         call # timer_stop f timer, s1)
                    | Rejected error \<Rightarrow>
                        (let (q, es) = catch_error f timer h error in (q, call # es, s1)))))"

definition findOneById ::
    "'s driver \<Rightarrow> facade \<Rightarrow> 's \<Rightarrow> heap \<Rightarrow> jsval \<Rightarrow> jsval \<Rightarrow> promise \<times> event list \<times> 's" where
  "findOneById drv f s h ident opts =
     (let timer = createTimer ''findOneById'' in
      case template h [(''id='', ident), ('' options='', opts)] of
        Inl x \<Rightarrow> (Rejected x, [], s)
      | Inr m \<Rightarrow>
         (let timer = timer\<lparr>t_message := m\<rparr>
          in case collection f of
               None \<Rightarrow> (Rejected (type_error ''Cannot read property findOne of null''), [], s)
             | Some c \<Rightarrow>
                (let (p, s1) = drv s c ''findOne'' [JObj [(''_id'', ident)]] h;
                     call = StoreCall ''findOne'' [JObj [(''_id'', ident)]] h
                 in case p of
                      Pending \<Rightarrow> (Pending, [call], s1)
                    | Fulfilled doc \<Rightarrow>
                        (if truthy doc then Fulfilled doc else Fulfilled JNull,
                         call # timer_stop f timer, s1)
                    | Rejected error \<Rightarrow>
                        (let (q, es) = catch_error f timer h error in (q, call # es, s1)))))"

subsection \<open>updateOne, removeOne, count\<close>

definition updateOne ::
    "'s driver \<Rightarrow> facade \<Rightarrow> 's \<Rightarrow> heap \<Rightarrow> jsval \<Rightarrow> jsval \<Rightarrow> jsval \<Rightarrow> promise \<times> event list \<times> 's" where
  "updateOne drv f s h fltr data opts =
     (let timer = createTimer ''updateOne'' in
      case template h [(''filter='', fltr), ('' data='', data), ('' options='', opts)] of
        Inl x \<Rightarrow> (Rejected x, [], s)
      | Inr m \<Rightarrow>
         (let timer = timer\<lparr>t_message := m\<rparr>
          in case collection f of
               None \<Rightarrow> (Rejected (type_error ''Cannot read property update of null''), [], s)
             | Some c \<Rightarrow>
                (let (p, s1) = drv s c ''update'' [fltr, data, JObj []] h;
                     call = StoreCall ''update'' [fltr, data, JObj []] h
                 in case p of
                      Pending \<Rightarrow> (Pending, [call], s1)
                    | Fulfilled num \<Rightarrow> (Fulfilled data, call # timer_stop f timer, s1)
                    | Rejected error \<Rightarrow>
                        (let (q, es) = catch_error f timer h error in (q, call # es, s1)))))"

text \<open>\<open>removeOne\<close> names its timer \<open>findOne\<close>, as the source does.\<close>

definition removeOne ::
    "'s driver \<Rightarrow> facade \<Rightarrow> 's \<Rightarrow> heap \<Rightarrow> jsval \<Rightarrow> jsval \<Rightarrow>
     (jsval + promise) \<times> event list \<times> 's" where
  "removeOne drv f s h fltr opts =
     (let timer = createTimer ''findOne'' in
      case template h [(''filter='', fltr), ('' options='', opts)] of
        Inl x \<Rightarrow> (Inl x, [], s)
      | Inr m \<Rightarrow>
         (let timer = timer\<lparr>t_message := m\<rparr>
          in case collection f of
               None \<Rightarrow> (Inr (Rejected (type_error ''Cannot read property remove of null'')), [], s)
             | Some c \<Rightarrow>
                (let (p, s1) = drv s c ''remove'' [fltr, JObj []] h;
                     call = StoreCall ''remove'' [fltr, JObj []] h
                 in case p of
                      Pending \<Rightarrow> (Inr Pending, [call], s1)
                    | Fulfilled n \<Rightarrow> (Inr (Fulfilled n), call # timer_stop f timer, s1)
                    | Rejected error \<Rightarrow>
                        (let (q, es) = catch_error f timer h error in (Inr q, call # es, s1)))))"

definition count ::
    "'s driver \<Rightarrow> facade \<Rightarrow> 's \<Rightarrow> heap \<Rightarrow> jsval \<Rightarrow> jsval \<Rightarrow>
     (jsval + promise) \<times> event list \<times> 's" where
  "count drv f s h fltr opts =
     (let timer = createTimer ''count'' in
      case template h [(''filter='', fltr), ('' options='', opts)] of
        Inl x \<Rightarrow> (Inl x, [], s)
      | Inr m \<Rightarrow>
         (let timer = timer\<lparr>t_message := m\<rparr>
          in case collection f of
               None \<Rightarrow> (Inr (Rejected (type_error ''Cannot read property count of null'')), [], s)
             | Some c \<Rightarrow>
                (let (p, s1) = drv s c ''count'' [fltr] h;
                     call = StoreCall ''count'' [fltr] h
                 in case p of
                      Pending \<Rightarrow> (Inr Pending, [call], s1)
                    | Fulfilled data \<Rightarrow> (Inr (Fulfilled data), call # timer_stop f timer, s1)
                    | Rejected error \<Rightarrow>
                        (let (q, es) = catch_error f timer h error in (Inr q, call # es, s1)))))"

subsection \<open>aggregate\<close>

text \<open>
  \<open>collection.aggregate(pipeline, options)\<close> returns a cursor at once (or throws): the
  driver's answer to it is a parameter of its own.
\<close>

type_synonym 's aggregation = "'s \<Rightarrow> jsval \<Rightarrow> jsval \<Rightarrow> jsval \<Rightarrow> heap \<Rightarrow> (jsval + jsval) \<times> 's"

definition aggregate ::
    "'s aggregation \<Rightarrow> facade \<Rightarrow> 's \<Rightarrow> heap \<Rightarrow> jsval \<Rightarrow> jsval \<Rightarrow>
     (jsval + jsval) \<times> event list \<times> 's" where
  "aggregate agg f s h pipeline opts =
     (let timer = createTimer ''aggregate'' in
      case template h [(''pipeline='', pipeline), ('' options='', opts)] of
        Inl x \<Rightarrow> (Inl x, [], s)
      | Inr m \<Rightarrow>
         (let timer = timer\<lparr>t_message := m\<rparr>;
              stopped = timer_stop f timer
          in case collection f of
               None \<Rightarrow> (Inl (type_error ''Cannot read property aggregate of null''), stopped, s)
             | Some c \<Rightarrow>
                (let (r, s1) = agg s c pipeline opts h
                 in (r, stopped @ [StoreCall ''aggregate'' [pipeline, opts] h], s1))))"

subsection \<open>find and the query chain\<close>

text \<open>
  Modelled from the spec: the class FindCursorChain (required from ./FindCursorChain) is
  not among the sources. A chain is made from a collection handle, a filter and a
  projection; \<open>sort\<close>, \<open>limit\<close> and \<open>skip\<close> set the sort order, the limit and the offset and
  return the chain; the terminal call builds the driver's cursor from what was accumulated
  and hands it, with the chain's debug message, to the hook registered by \<open>onExec\<close>. The
  text of the debug message is the chain's own and is a parameter. With no collection
  handle there is nothing to call: the call on \<open>null\<close> throws.
\<close>

record chain =
  c_collection :: "jsval option"
  c_filter :: jsval
  c_fields :: jsval
  c_sort :: jsval
  c_limit :: jsval
  c_skip :: jsval

text \<open>
  Modelled from the spec: the constructor of the absent FindCursorChain; nothing but the
  handle, the filter and the projection is set.
\<close>

definition FindCursorChain :: "jsval option \<Rightarrow> jsval \<Rightarrow> jsval \<Rightarrow> chain" where
  "FindCursorChain coll fltr flds =
     \<lparr>c_collection = coll, c_filter = fltr, c_fields = flds,
      c_sort = JUndefined, c_limit = JUndefined, c_skip = JUndefined\<rparr>"

text \<open>Modelled from the spec: the calls \<open>sort\<close>, \<open>limit\<close> and \<open>skip\<close> of the absent chain.\<close>

definition chain_sort :: "chain \<Rightarrow> jsval \<Rightarrow> chain" where
  "chain_sort ch v = ch\<lparr>c_sort := v\<rparr>"

definition chain_limit :: "chain \<Rightarrow> jsval \<Rightarrow> chain" where
  "chain_limit ch v = ch\<lparr>c_limit := v\<rparr>"

definition chain_skip :: "chain \<Rightarrow> jsval \<Rightarrow> chain" where
  "chain_skip ch v = ch\<lparr>c_skip := v\<rparr>"

text \<open>
  Modelled from the spec: the terminal call of the absent chain, given the hook that
  \<open>onExec\<close> registered.
\<close>

definition chain_exec :: "(cursor \<Rightarrow> message \<Rightarrow> 'r) \<Rightarrow> chain \<Rightarrow> message \<Rightarrow> jsval + 'r" where
  "chain_exec hook ch debugMessage =
     (case c_collection ch of
        None \<Rightarrow> Inl (type_error ''Cannot read property find of null'')
      | Some c \<Rightarrow>
          Inr (hook \<lparr>cu_collection = c, cu_filter = c_filter ch, cu_fields = c_fields ch,
                     cu_sort = c_sort ch, cu_limit = c_limit ch, cu_skip = c_skip ch\<rparr>
                    debugMessage))"

text \<open>
  \<open>find(filter, fields, sort, limit, offset, options)\<close> makes the timer and the chain; only
  the filter and the fields reach the chain.
\<close>

definition find_op ::
    "facade \<Rightarrow> jsval \<Rightarrow> jsval \<Rightarrow> jsval \<Rightarrow> jsval \<Rightarrow> jsval \<Rightarrow> jsval \<Rightarrow> timer \<times> chain" where
  "find_op f fltr flds srt lim offset opts =
     (createTimer ''find'', FindCursorChain (collection f) fltr flds)"

text \<open>
  The hook that \<open>find\<close> registers with \<open>chain.onExec\<close>. It reads the sink of the facade when
  it runs.
\<close>

definition find_onExec ::
    "'s cursor_driver \<Rightarrow> facade \<Rightarrow> timer \<Rightarrow> 's \<Rightarrow> heap \<Rightarrow> cursor \<Rightarrow> message \<Rightarrow>
     promise \<times> event list \<times> 's" where
  "find_onExec cur f timer0 s h cursor debugMessage =
     (let timer = timer0\<lparr>t_message := debugMessage\<rparr>;
          stopped = timer_stop f timer;
          (p1, s1) = cur s cursor ''count'';
          (p2, s2) = cur s1 cursor ''toArray'';
          calls = [CursorCall ''count'' cursor, CursorCall ''toArray'' cursor]
      in case promise_all [p1, p2] of
           AllPending \<Rightarrow> (Pending, stopped @ calls, s2)
         | AllRejected error \<Rightarrow>
             (let (q, es) = catch_error f timer h error in (q, stopped @ calls @ es, s2))
         | AllFulfilled data \<Rightarrow>
             (Fulfilled (JObj [(''total'', data ! 0), (''docs'', data ! 1)]),
              stopped @ calls, s2))"

text \<open>\<open>find(...)\<close> followed by the calls on the chain and its terminal call.\<close>

definition find_exec ::
    "'s cursor_driver \<Rightarrow> facade \<Rightarrow> 's \<Rightarrow> heap \<Rightarrow> timer \<times> chain \<Rightarrow> message \<Rightarrow>
     jsval + promise \<times> event list \<times> 's" where
  "find_exec cur f s h tc debugMessage =
     chain_exec (find_onExec cur f (fst tc) s h) (snd tc) debugMessage"

text \<open>
  Modelled from the spec: the store's cursor is not among the sources. A cursor has
  \<open>count()\<close>, which answers with the number of documents that match the filter whatever the
  limit and the offset are, and \<open>toArray()\<close>, which answers with the matching documents in
  the order asked for, after the offset and up to the limit. What matches a filter and how a
  sort order arranges documents are parameters; a limit or offset that is not a number is
  not set.
\<close>

definition window :: "jsval \<Rightarrow> jsval \<Rightarrow> 'a list \<Rightarrow> 'a list" where
  "window lim skp xs =
     (let ys = (case skp of JNum n \<Rightarrow> drop (nat n) xs | _ \<Rightarrow> xs)
      in case lim of JNum n \<Rightarrow> take (nat n) ys | _ \<Rightarrow> ys)"

text \<open>
  Modelled from the spec: the answers of the store's cursor over the documents \<open>docs\<close>.
\<close>

definition page_cursor ::
    "(jsval \<Rightarrow> jsval \<Rightarrow> bool) \<Rightarrow> (jsval \<Rightarrow> jsval list \<Rightarrow> jsval list) \<Rightarrow> jsval list \<Rightarrow>
     unit cursor_driver" where
  "page_cursor matches order docs s cu m =
     (let found = filter (matches (cu_filter cu)) docs
      in if m = ''count'' then (Fulfilled (JNum (int (length found))), s)
         else (Fulfilled (JArr (window (cu_limit cu) (cu_skip cu) (order (cu_sort cu) found)) []),
               s))"

subsection \<open>ensureIndexes\<close>

text \<open>
  The first loop: one \<open>indexExists\<close> call for each declared index, in the order of the
  declarations. The calls are answered in the order they are made.
\<close>

fun existsPromises ::
    "'s driver \<Rightarrow> 's \<Rightarrow> jsval \<Rightarrow> heap \<Rightarrow> index_decl list \<Rightarrow> promise list \<times> event list \<times> 's" where
  "existsPromises drv s c h [] = ([], [], s)"
| "existsPromises drv s c h (d # ds) =
     (let name = lookup (i_options d) ''name'';
          (p, s1) = drv s c ''indexExists'' [name] h;
          (ps, es, s2) = existsPromises drv s1 c h ds
      in (p # ps, StoreCall ''indexExists'' [name] h # es, s2))"








section \<open>Sample collaborators\<close>

text \<open>
  Where a theorem below names no driver it holds for every driver. To run the model on
  concrete inputs: a model class that declares the collection \<open>users\<close>, the same after
  \<open>init()\<close>, and a driver that gives every call the same answer.
\<close>

definition users_model :: facade where
  "users_model = constructor\<lparr>collectionName := JStr ''users''\<rparr>"

definition users :: facade where
  "users = users_model\<lparr>collection := Some (JStr ''users'')\<rparr>"

definition answering :: "promise \<Rightarrow> unit driver" where
  "answering p s c m args h = (p, s)"










text \<open>
  A document; a store that holds a document before and after an update and follows the
  driver's rule for \<open>returnOriginal\<close>; a facade with a sink installed; a cursor whose
  \<open>count()\<close> fails; the cursor of all users; ten documents.
\<close>

definition a_user :: jsval where
  "a_user = JObj [(''_id'', JStr ''42''), (''name'', JStr ''Ann'')]"

definition versions :: "jsval \<Rightarrow> jsval \<Rightarrow> unit driver" where
  "versions before after s c m args h =
     (if m = ''findOneAndUpdate'' \<and> asks_for_updated h (args ! 2)
      then (Fulfilled after, s) else (Fulfilled before, s))"

definition logged_users :: facade where
  "logged_users = setDebugger users LoggingDebugger"

definition boom :: jsval where
  "boom = JObj [(''message'', JStr ''boom'')]"

definition count_fails :: "unit cursor_driver" where
  "count_fails s cu m =
     (if m = ''count'' then (Rejected boom, s) else (Fulfilled (JArr [] []), s))"

definition all_users :: cursor where
  "all_users = \<lparr>cu_collection = JStr ''users'', cu_filter = JObj [], cu_fields = JUndefined,
                 cu_sort = JUndefined, cu_limit = JUndefined, cu_skip = JUndefined\<rparr>"

definition ten_docs :: "jsval list" where
  "ten_docs = map (\<lambda>i. JObj [(''n'', JNum i)]) [0, 1, 2, 3, 4, 5, 6, 7, 8, 9]"

section \<open>The conversions on sample values\<close>

text \<open>The texts that read as 11000, and some that do not.\<close>

lemma str_eq_11000_literals:
  "str_eq_11000 ''11000'' \<and> str_eq_11000 ''0x2AF8'' \<and> str_eq_11000 ''11000.0'' \<and>
   str_eq_11000 ''1.1e4'' \<and> str_eq_11000 '' +11000 '' \<and> str_eq_11000 ''0b10101011111000'' \<and>
   \<not> str_eq_11000 ''11001'' \<and> \<not> str_eq_11000 '''' \<and> \<not> str_eq_11000 ''-11000'' \<and>
   \<not> str_eq_11000 ''11000px''"
  by (simp add: str_eq_11000_def trim_def is_space_def radix_literal_def unsigned_val_def
        digit_val_def decimal_literal_def is_digit_def exponent_part_def reads_as_11000_def
        Let_def)

lemma loose_eq_11000_values:
  "loose_eq_11000 (JNum 11000) \<and> loose_eq_11000 (JStr ''0x2AF8'') \<and>
   loose_eq_11000 (JArr [JStr ''1.1e4''] []) \<and> loose_eq_11000 (JArr [JNum 11000] []) \<and>
   \<not> loose_eq_11000 (JObj []) \<and> \<not> loose_eq_11000 (JArr [JNum 11000, JNum 11000] [])"
  by (simp add: str_eq_11000_def trim_def is_space_def radix_literal_def unsigned_val_def
        digit_val_def decimal_literal_def is_digit_def exponent_part_def reads_as_11000_def
        Let_def dec_int_def number_text_def dec_nat.simps digit_char_def reads_back_def
        bit_length.simps strip_zeros_def)

text \<open>The text of a number, in full and with an exponent.\<close>

lemma number_text_values:
  "js_to_string (JNum 42) = ''42'' \<and> js_to_string (JNum (- 7)) = ''-7'' \<and>
   js_to_string (JNum (10 ^ 21)) = ''1e+21'' \<and>
   js_to_string (JNum (2 ^ 64)) = ''18446744073709552000''"
  by (simp add: dec_int_def number_text_def dec_nat.simps digit_char_def reads_back_def
        bit_length.simps strip_zeros_def Let_def)

section \<open>Properties of insertOne\<close>

lemma lookup_put_other: "k' \<noteq> k \<Longrightarrow> lookup (put ps k v) k' = lookup ps k'"
  by (induction ps) (auto simp: lookup_def)

lemma lookup_put_same: "lookup (put ps k v) k = v"
  by (induction ps) (auto simp: lookup_def)

lemma cell_heap_put_same: "cell (heap_put h a ps) a = ps"
  by (simp add: cell_def heap_put_def nth_append)

lemma cell_heap_put_other: "b \<noteq> a \<Longrightarrow> cell (heap_put h a ps) b = cell h b"
  by (auto simp: cell_def heap_put_def nth_append nth_Cons' split: if_splits)



lemma insertOne_heap:
  assumes "copy_id h data = Inr (h1, data1)"
  shows "snd (snd (snd (insertOne drv f s h data opts))) = h1"
  using assms
  by (simp add: insertOne_def Let_def split: sum.splits option.splits prod.splits promise.splits)

lemma insertOne_first_event:
  assumes "copy_id h data = Inr (h1, data1)" "serialisable h1 data1" "collection f = Some c"
  shows "hd (fst (snd (insertOne drv f s h data opts))) = StoreCall ''insertOne'' [data1] h1"
  using assms
  by (simp add: insertOne_def json_def Let_def
        split: sum.splits option.splits prod.splits promise.splits)

text \<open>
  Claim C10. When the store's insert promise rejects with a falsy value, the promise that
  \<open>insertOne\<close> returned never settles: the rejection handler does all its work under
  \<open>if (error)\<close>, so it neither resolves nor rejects, and the timer is not ended either. The
  store's call is the only thing the operation has done.
\<close>

theorem insertOne_falsy_rejection_pending:
  assumes "collection f = Some c"
    and "copy_id h data = Inr (h1, data1)"
    and "serialisable h1 data1"
    and "fst (drv s c ''insertOne'' [data1] h1) = Rejected e"
    and "\<not> truthy e"
  shows "fst (insertOne drv f s h data opts) = Pending \<and>
         fst (snd (insertOne drv f s h data opts)) = [StoreCall ''insertOne'' [data1] h1]"
proof (cases "drv s c ''insertOne'' [data1] h1")
  case (Pair p s1)
  with assms show ?thesis
    by (simp add: insertOne_def json_def insertOne_catch_def Let_def)
qed

theorem insertOne_falsy_rejection_pending_witness:
  "collection users = Some (JStr ''users'') \<and>
   copy_id [[(''id'', JStr ''X'')]] (JRef 0) =
     Inr ([[(''id'', JStr ''X''), (''_id'', JStr ''X'')]], JRef 0) \<and>
   serialisable [[(''id'', JStr ''X''), (''_id'', JStr ''X'')]] (JRef 0) \<and>
   \<not> truthy JNull \<and>
   fst (insertOne (answering (Rejected JNull)) users () [[(''id'', JStr ''X'')]] (JRef 0)
          JUndefined) = Pending \<and>
   fst (snd (insertOne (answering (Rejected JNull)) users () [[(''id'', JStr ''X'')]] (JRef 0)
          JUndefined)) =
     [StoreCall ''insertOne'' [JRef 0] [[(''id'', JStr ''X''), (''_id'', JStr ''X'')]]]"
proof -
  have a: "collection users = Some (JStr ''users'')"
    by (simp add: users_def)
  have b: "copy_id [[(''id'', JStr ''X'')]] (JRef 0) =
             Inr ([[(''id'', JStr ''X''), (''_id'', JStr ''X'')]], JRef 0)"
    by (simp add: copy_id_def get_prop_def nullish_def cell_def lookup_def heap_put_def)
  have c: "serialisable [[(''id'', JStr ''X''), (''_id'', JStr ''X'')]] (JRef 0)"
    by (simp add: serialisable_def cell_def)
  have d: "fst (answering (Rejected JNull) () (JStr ''users'') ''insertOne'' [JRef 0]
                  [[(''id'', JStr ''X''), (''_id'', JStr ''X'')]]) = Rejected JNull"
    by (simp add: answering_def)
  have e: "\<not> truthy JNull"
    by simp
  from insertOne_falsy_rejection_pending
         [where drv = "answering (Rejected JNull)" and s = "()" and opts = JUndefined,
          OF a b c d e] a b c e
  show ?thesis by blast
qed




text \<open>
  Claim C9. \<open>insertOne\<close> called with the caller's object (the object in cell \<open>a\<close> of the
  object store): when \<open>data.id\<close> is truthy the object itself gets \<open>_id = data.id\<close>, when it
  is falsy the object store is left as it was. Nothing else changes: the other properties
  of the object and the other objects are as before. And the store is called with the same
  reference, on the object store that already holds the write.
\<close>

theorem insertOne_in_place:
  "\<exists>h' i. i = lookup (cell h a) ''id'' \<and>
           snd (snd (snd (insertOne drv f s h (JRef a) opts))) = h' \<and>
           h' = (if truthy i then heap_put h a (put (cell h a) ''_id'' i) else h) \<and>
           (truthy i \<longrightarrow> lookup (cell h' a) ''_id'' = i) \<and>
           (\<forall>k. k \<noteq> ''_id'' \<longrightarrow> lookup (cell h' a) k = lookup (cell h a) k) \<and>
           (\<forall>b. b \<noteq> a \<longrightarrow> cell h' b = cell h b) \<and>
           (collection f = Some c \<longrightarrow> serialisable h' (JRef a) \<longrightarrow>
              hd (fst (snd (insertOne drv f s h (JRef a) opts))) = StoreCall ''insertOne'' [JRef a] h')"
proof -
  define i where "i = lookup (cell h a) ''id''"
  define h' where "h' = (if truthy i then heap_put h a (put (cell h a) ''_id'' i) else h)"
  have cp: "copy_id h (JRef a) = Inr (h', JRef a)"
    by (simp add: copy_id_def get_prop_def nullish_def i_def h'_def)
  have 1: "snd (snd (snd (insertOne drv f s h (JRef a) opts))) = h'"
    by (rule insertOne_heap [OF cp])
  have 2: "truthy i \<longrightarrow> lookup (cell h' a) ''_id'' = i"
    by (simp add: h'_def cell_heap_put_same lookup_put_same)
  have 3: "collection f = Some c \<longrightarrow> serialisable h' (JRef a) \<longrightarrow>
              hd (fst (snd (insertOne drv f s h (JRef a) opts))) = StoreCall ''insertOne'' [JRef a] h'"
    using insertOne_first_event [OF cp, where f = f and c = c and drv = drv and s = s and opts = opts]
    by simp
  have 4: "\<forall>k. k \<noteq> ''_id'' \<longrightarrow> lookup (cell h' a) k = lookup (cell h a) k"
    by (simp add: h'_def cell_heap_put_same lookup_put_other)
  have 5: "\<forall>b. b \<noteq> a \<longrightarrow> cell h' b = cell h b"
    by (simp add: h'_def cell_heap_put_other)
  from 1 2 3 4 5 show ?thesis
    using h'_def i_def by simp
qed

theorem insertOne_in_place_witness:
  "snd (snd (snd (insertOne (answering (Fulfilled JNull)) users () [[(''id'', JStr ''X'')]] (JRef 0)
      JUndefined))) = [[(''id'', JStr ''X''), (''_id'', JStr ''X'')]] \<and>
   collection users = Some (JStr ''users'') \<and>
   serialisable [[(''id'', JStr ''X''), (''_id'', JStr ''X'')]] (JRef 0) \<and>
   hd (fst (snd (insertOne (answering (Fulfilled JNull)) users () [[(''id'', JStr ''X'')]] (JRef 0)
      JUndefined))) =
     StoreCall ''insertOne'' [JRef 0] [[(''id'', JStr ''X''), (''_id'', JStr ''X'')]]"
proof -
  have a: "collection users = Some (JStr ''users'')"
    by (simp add: users_def)
  have c: "serialisable [[(''id'', JStr ''X''), (''_id'', JStr ''X'')]] (JRef 0)"
    by (simp add: serialisable_def cell_def)
  have i: "lookup (cell [[(''id'', JStr ''X'')]] 0) ''id'' = JStr ''X''"
    by (simp add: cell_def lookup_def)
  from insertOne_in_place
         [of "[[(''id'', JStr ''X'')]]" 0 "answering (Fulfilled JNull)" users "()" JUndefined
             "JStr ''users''"] a c i
  show ?thesis by (simp add: cell_def heap_put_def)
qed

section \<open>Properties of ensureIndexes\<close>


lemma existsPromises_length:
  "length (fst (existsPromises drv s c h ds)) = length ds"
  by (induction ds arbitrary: s) (simp_all add: Let_def case_prod_unfold)













section \<open>Operations on a facade without a collection handle\<close>

lemma copy_id_throws: "copy_id h data = Inl x \<Longrightarrow> \<exists>m. x = type_error m"
  by (cases data) (auto simp: copy_id_def get_prop_def nullish_def split: if_splits)

lemma json_throws: "json h v = Inl x \<Longrightarrow> \<exists>m. x = type_error m"
  by (auto simp: json_def split: if_splits)

lemma template_throws: "template h kvs = Inl x \<Longrightarrow> \<exists>m. x = type_error m"
proof (induction kvs arbitrary: x)
  case Nil
  then show ?case by simp
next
  case (Cons kv kvs)
  obtain k v where kv: "kv = (k, v)" by (cases kv)
  from Cons show ?case
    by (auto simp: kv dest: json_throws split: sum.splits)
qed

lemma default_options_throws: "default_options h opts = Inl x \<Longrightarrow> \<exists>m. x = type_error m"
  by (cases opts) (auto simp: default_options_def split: if_splits)

lemma insertOne_uninitialised:
  assumes "collection f = None"
  shows "(\<exists>m. fst (insertOne drv f s h data opts) = Rejected (type_error m)) \<and>
         fst (snd (insertOne drv f s h data opts)) = []"
  using assms
  by (auto simp: insertOne_def Let_def dest: copy_id_throws json_throws split: sum.splits)

lemma findOne_uninitialised:
  assumes "collection f = None"
  shows "(\<exists>m. fst (findOne drv f s h query opts) = Rejected (type_error m)) \<and>
         fst (snd (findOne drv f s h query opts)) = []"
  using assms
  by (auto simp: findOne_def Let_def simp del: template.simps dest: template_throws
           split: sum.splits)

lemma findOneById_uninitialised:
  assumes "collection f = None"
  shows "(\<exists>m. fst (findOneById drv f s h ident opts) = Rejected (type_error m)) \<and>
         fst (snd (findOneById drv f s h ident opts)) = []"
  using assms
  by (auto simp: findOneById_def Let_def simp del: template.simps dest: template_throws
           split: sum.splits)

lemma updateOne_uninitialised:
  assumes "collection f = None"
  shows "(\<exists>m. fst (updateOne drv f s h fltr data opts) = Rejected (type_error m)) \<and>
         fst (snd (updateOne drv f s h fltr data opts)) = []"
  using assms
  by (auto simp: updateOne_def Let_def simp del: template.simps dest: template_throws
           split: sum.splits)

lemma findOneAndUpdate_uninitialised:
  assumes "collection f = None"
  shows "(\<exists>m. fst (findOneAndUpdate drv f s h fltr update opts) = Inl (type_error m) \<or>
              fst (findOneAndUpdate drv f s h fltr update opts) = Inr (Rejected (type_error m))) \<and>
         fst (snd (findOneAndUpdate drv f s h fltr update opts)) = []"
  using assms
  by (auto simp: findOneAndUpdate_def Let_def simp del: template.simps
           dest: template_throws default_options_throws split: sum.splits)

lemma removeOne_uninitialised:
  assumes "collection f = None"
  shows "(\<exists>m. fst (removeOne drv f s h fltr opts) = Inl (type_error m) \<or>
              fst (removeOne drv f s h fltr opts) = Inr (Rejected (type_error m))) \<and>
         fst (snd (removeOne drv f s h fltr opts)) = []"
  using assms
  by (auto simp: removeOne_def Let_def simp del: template.simps dest: template_throws
           split: sum.splits)

lemma count_uninitialised:
  assumes "collection f = None"
  shows "(\<exists>m. fst (count drv f s h fltr opts) = Inl (type_error m) \<or>
              fst (count drv f s h fltr opts) = Inr (Rejected (type_error m))) \<and>
         fst (snd (count drv f s h fltr opts)) = []"
  using assms
  by (auto simp: count_def Let_def simp del: template.simps dest: template_throws
           split: sum.splits)

lemma type_error_code: "prop_of h (type_error m) ''code'' = JUndefined"
  by (simp add: type_error_def lookup_def)

text \<open>
  Claim C2, as stated, fails: only \<open>init()\<close> checks the collection name. On a facade that
  was never initialised \<open>count\<close> does not throw: it returns a promise, rejected with the
  TypeError of the call on \<open>null\<close>, which has no code.
\<close>

theorem count_before_init_counterexample:
  "count (answering (Fulfilled (JNum 0))) constructor () [] (JObj []) JUndefined =
     (Inr (Rejected (type_error ''Cannot read property count of null'')), [], ()) \<and>
   prop_of [] (type_error ''Cannot read property count of null'') ''code'' \<noteq> NO_COLLECTION_NAME"
  by (simp add: count_def json_def serialisable_def constructor_def type_error_def lookup_def
        NO_COLLECTION_NAME_def)

text \<open>
  Claim C2, amended. \<open>init()\<close> called while no collection name is declared throws an error
  whose code is \<open>NO_COLLECTION_NAME\<close>. On a facade without a collection handle no operation
  calls the store, and none fails with \<open>NO_COLLECTION_NAME\<close>: \<open>insertOne\<close>, \<open>findOne\<close>,
  \<open>findOneById\<close> and \<open>updateOne\<close> return a promise rejected with a TypeError;
  \<open>findOneAndUpdate\<close>, \<open>removeOne\<close> and \<open>count\<close> return such a promise or throw a TypeError
  (for arguments they cannot serialise or write to); \<open>find\<close> returns a chain that holds no
  handle. A TypeError carries no such code.
\<close>

theorem uninitialised_facade:
  "(\<not> truthy (collectionName f) \<longrightarrow>
      (\<exists>e. init f = Inl e \<and> prop_of h e ''code'' = NO_COLLECTION_NAME)) \<and>
   (collection f = None \<longrightarrow>
      (\<exists>m. fst (insertOne drv f s h data opts) = Rejected (type_error m)) \<and>
      fst (snd (insertOne drv f s h data opts)) = [] \<and>
      (\<exists>m. fst (findOne drv f s h query opts) = Rejected (type_error m)) \<and>
      fst (snd (findOne drv f s h query opts)) = [] \<and>
      (\<exists>m. fst (findOneById drv f s h ident opts) = Rejected (type_error m)) \<and>
      fst (snd (findOneById drv f s h ident opts)) = [] \<and>
      (\<exists>m. fst (updateOne drv f s h fltr data opts) = Rejected (type_error m)) \<and>
      fst (snd (updateOne drv f s h fltr data opts)) = [] \<and>
      (\<exists>m. fst (findOneAndUpdate drv f s h fltr update opts) = Inl (type_error m) \<or>
           fst (findOneAndUpdate drv f s h fltr update opts) = Inr (Rejected (type_error m))) \<and>
      fst (snd (findOneAndUpdate drv f s h fltr update opts)) = [] \<and>
      (\<exists>m. fst (removeOne drv f s h fltr opts) = Inl (type_error m) \<or>
           fst (removeOne drv f s h fltr opts) = Inr (Rejected (type_error m))) \<and>
      fst (snd (removeOne drv f s h fltr opts)) = [] \<and>
      (\<exists>m. fst (count drv f s h fltr opts) = Inl (type_error m) \<or>
           fst (count drv f s h fltr opts) = Inr (Rejected (type_error m))) \<and>
      fst (snd (count drv f s h fltr opts)) = [] \<and>
      c_collection (snd (find_op f fltr flds srt lim off opts)) = None) \<and>
   (\<forall>m. prop_of h (type_error m) ''code'' \<noteq> NO_COLLECTION_NAME)"
proof -
  have i: "\<not> truthy (collectionName f) \<longrightarrow>
      (\<exists>e. init f = Inl e \<and> prop_of h e ''code'' = NO_COLLECTION_NAME)"
    by (simp add: init_def ModelError_def lookup_def)
  have t: "\<forall>m. prop_of h (type_error m) ''code'' \<noteq> NO_COLLECTION_NAME"
    by (simp add: type_error_code NO_COLLECTION_NAME_def)
  have fd: "collection f = None \<longrightarrow> c_collection (snd (find_op f fltr flds srt lim off opts)) = None"
    by (simp add: find_op_def FindCursorChain_def)
  from i t fd
    insertOne_uninitialised [of f drv s h data opts]
    findOne_uninitialised [of f drv s h query opts]
    findOneById_uninitialised [of f drv s h ident opts]
    updateOne_uninitialised [of f drv s h fltr data opts]
    findOneAndUpdate_uninitialised [of f drv s h fltr update opts]
    removeOne_uninitialised [of f drv s h fltr opts]
    count_uninitialised [of f drv s h fltr opts]
  show ?thesis by simp
qed

theorem uninitialised_facade_witness:
  "\<not> truthy (collectionName constructor) \<and>
   (\<exists>e. init constructor = Inl e \<and> prop_of [] e ''code'' = NO_COLLECTION_NAME) \<and>
   collection constructor = None \<and>
   (\<exists>m. fst (insertOne (answering (Fulfilled JNull)) constructor () [] (JObj []) JUndefined) =
          Rejected (type_error m)) \<and>
   (\<exists>m. fst (count (answering (Fulfilled JNull)) constructor () [] (JObj []) JUndefined) =
          Inl (type_error m) \<or>
        fst (count (answering (Fulfilled JNull)) constructor () [] (JObj []) JUndefined) =
          Inr (Rejected (type_error m)))"
proof -
  have a: "\<not> truthy (collectionName constructor)"
    by (simp add: constructor_def)
  have b: "collection constructor = None"
    by (simp add: constructor_def)
  from uninitialised_facade
         [where f = constructor and drv = "answering (Fulfilled JNull)" and s = "()" and h = "[]"
            and data = "JObj []" and opts = JUndefined and fltr = "JObj []"] a b
  show ?thesis by simp
qed

section \<open>Properties of find\<close>

text \<open>
  The other operations end their timer once. For \<open>findOne\<close>, whose call of the store
  settles (a rejection with an error that has a message to read): one terminal call, and one
  record when a sink is installed.
\<close>

lemma findOne_ends_timer_once:
  assumes "collection f = Some c"
    and "serialisable h query" and "serialisable h opts"
    and "fst (drv s c ''findOne'' [query, opts] h) = p"
    and "p \<noteq> Pending" and "\<forall>e. p = Rejected e \<longrightarrow> \<not> nullish e"
  shows "length (filter is_timer_end (fst (snd (findOne drv f s h query opts)))) = 1 \<and>
         (debugger f = LoggingDebugger \<longrightarrow>
            length (filter is_record (fst (snd (findOne drv f s h query opts)))) = 1)"
proof (cases "drv s c ''findOne'' [query, opts] h")
  case (Pair p' s1)
  with assms(4) have p': "p' = p" by simp
  show ?thesis
  proof (cases p)
    case Pending
    with assms(5) show ?thesis by simp
  next
    case (Fulfilled doc)
    with assms Pair p' show ?thesis
      by (cases "debugger f") (simp_all add: findOne_def json_def timer_stop_def logDebug_def Let_def)
  next
    case (Rejected e)
    with assms Pair p' show ?thesis
      by (cases "debugger f")
         (simp_all add: findOne_def json_def catch_error_def get_prop_def timer_error_def
            logDebug_def Let_def)
  qed
qed

text \<open>
  Claim C4: every operation ends its timer exactly once and so delivers exactly one record.
  The code of \<open>find\<close> does not: its hook calls \<open>timer.stop()\<close> before it asks the cursor,
  and \<open>timer.error(...)\<close> when the cursor fails. With a sink installed and a cursor whose
  \<open>count()\<close> is rejected, the promise is rejected, both terminal calls are made and two
  records reach the sink.
\<close>

theorem find_rejected_ends_timer_twice:
  "find_onExec count_fails logged_users (createTimer ''find'') () [] all_users [Lit ''find''] =
     (Rejected boom,
      [TimerStop ''find'',
       SinkLog \<lparr>r_type = ''mongo'', r_name = ''find'', r_message = [Lit ''find''],
                r_error = None\<rparr>,
       CursorCall ''count'' all_users,
       CursorCall ''toArray'' all_users,
       TimerError ''find'' (JStr ''boom''),
       SinkLog \<lparr>r_type = ''mongo'', r_name = ''find'', r_message = [Lit ''find''],
                r_error = Some (JStr ''boom'')\<rparr>],
      ()) \<and>
   length (filter is_timer_end (fst (snd (find_onExec count_fails logged_users
      (createTimer ''find'') () [] all_users [Lit ''find''])))) = 2 \<and>
   length (filter is_record (fst (snd (find_onExec count_fails logged_users
      (createTimer ''find'') () [] all_users [Lit ''find''])))) = 2"
  by (simp add: find_onExec_def count_fails_def logged_users_def setDebugger_def timer_stop_def
        timer_error_def logDebug_def createTimer_def promise_all_def catch_error_def
        get_prop_def nullish_def boom_def lookup_def Let_def)

lemma length_window: "length (window (JNum (int l)) skp xs) \<le> l"
  by (simp add: window_def Let_def split: jsval.splits)

text \<open>What the hook resolves with is what the cursor's two calls are answered with.\<close>

lemma find_onExec_fulfilled:
  assumes "cur s cu ''count'' = (Fulfilled t, s1)"
    and "cur s1 cu ''toArray'' = (Fulfilled d, s2)"
  shows "\<exists>es. find_onExec cur f tm s h cu dm =
                (Fulfilled (JObj [(''total'', t), (''docs'', d)]), es, s2)"
  using assms by (simp add: find_onExec_def promise_all_def Let_def)

text \<open>
  Claim C5. On an initialised facade, for every filter, sort order, limit and offset set on
  the chain that \<open>find\<close> returns, the terminal call resolves with \<open>{total, docs}\<close>, where
  \<open>total\<close> is the number of documents of the store that match the filter, whatever the
  limit and the offset are, and \<open>docs\<close> holds at most \<open>limit\<close> documents. (The arguments
  \<open>sort\<close>, \<open>limit\<close>, \<open>offset\<close> and \<open>options\<close> of \<open>find\<close> itself reach neither the chain
  nor the result.) An instance: a store with ten matching documents and limit 3.
\<close>

theorem find_total_and_page:
  assumes "collection f = Some c"
  shows "(\<exists>es. find_exec (page_cursor matches order docs) f () h
            (fst (find_op f fltr flds p1 p2 p3 p4),
             chain_skip (chain_limit (chain_sort (snd (find_op f fltr flds p1 p2 p3 p4)) srt) lim)
               skp)
            dm =
          Inr (Fulfilled
                 (JObj [(''total'', JNum (int (length (filter (matches fltr) docs)))),
                        (''docs'',
                         JArr (window lim skp (order srt (filter (matches fltr) docs))) [])]),
               es, ())) \<and>
         (\<forall>l. lim = JNum (int l) \<longrightarrow>
            length (window lim skp (order srt (filter (matches fltr) docs))) \<le> l)"
proof -
  let ?cu = "\<lparr>cu_collection = c, cu_filter = fltr, cu_fields = flds, cu_sort = srt,
               cu_limit = lim, cu_skip = skp\<rparr>"
  have a: "page_cursor matches order docs () ?cu ''count'' =
             (Fulfilled (JNum (int (length (filter (matches fltr) docs)))), ())"
    by (simp add: page_cursor_def)
  have b: "page_cursor matches order docs () ?cu ''toArray'' =
             (Fulfilled (JArr (window lim skp (order srt (filter (matches fltr) docs))) []), ())"
    by (simp add: page_cursor_def)
  have c: "find_exec (page_cursor matches order docs) f () h
            (fst (find_op f fltr flds p1 p2 p3 p4),
             chain_skip (chain_limit (chain_sort (snd (find_op f fltr flds p1 p2 p3 p4)) srt) lim)
               skp)
            dm =
           Inr (find_onExec (page_cursor matches order docs) f (createTimer ''find'') () h ?cu dm)"
    using assms
    by (simp add: find_exec_def chain_exec_def chain_skip_def chain_limit_def chain_sort_def
          find_op_def FindCursorChain_def)
  have d: "\<forall>l. lim = JNum (int l) \<longrightarrow>
            length (window lim skp (order srt (filter (matches fltr) docs))) \<le> l"
    by (simp add: length_window)
  from find_onExec_fulfilled
         [where cur = "page_cursor matches order docs" and s = "()" and f = f
            and tm = "createTimer ''find''" and h = h and dm = dm, OF a b] c d
  show ?thesis by simp
qed

theorem find_total_and_page_witness:
  "collection users = Some (JStr ''users'') \<and>
   length (filter (\<lambda>d. True) ten_docs) = 10 \<and>
   (\<exists>es. find_exec (page_cursor (\<lambda>q d. True) (\<lambda>k xs. xs) ten_docs) users () []
      (fst (find_op users (JObj []) JUndefined JUndefined JUndefined JUndefined JUndefined),
       chain_skip (chain_limit (chain_sort
         (snd (find_op users (JObj []) JUndefined JUndefined JUndefined JUndefined JUndefined))
           JUndefined) (JNum 3)) JUndefined)
      [Lit ''find''] =
     Inr (Fulfilled (JObj [(''total'', JNum 10),
                      (''docs'', JArr [JObj [(''n'', JNum 0)], JObj [(''n'', JNum 1)],
                                       JObj [(''n'', JNum 2)]] [])]), es, ())) \<and>
   length [JObj [(''n'', JNum 0)], JObj [(''n'', JNum 1)], JObj [(''n'', JNum 2)]] = 3"
proof -
  have a: "collection users = Some (JStr ''users'')"
    by (simp add: users_def)
  have b: "length (filter (\<lambda>d. True) ten_docs) = 10"
    by (simp add: ten_docs_def)
  have c: "window (JNum 3) JUndefined (filter (\<lambda>d. True) ten_docs) =
             [JObj [(''n'', JNum 0)], JObj [(''n'', JNum 1)], JObj [(''n'', JNum 2)]]"
    by (simp add: window_def ten_docs_def)
  from find_total_and_page
         [where matches = "\<lambda>q d. True" and order = "\<lambda>k xs. xs" and docs = ten_docs
            and f = users and h = "[]" and fltr = "JObj []"
            and flds = JUndefined and ?p1.0 = JUndefined and ?p2.0 = JUndefined
            and ?p3.0 = JUndefined and ?p4.0 = JUndefined and srt = JUndefined
            and lim = "JNum 3" and skp = JUndefined and dm = "[Lit ''find'']", OF a] a b c
  show ?thesis by simp
qed

section \<open>Properties of findOneAndUpdate\<close>

lemma default_options_asks:
  assumes "default_options h opts = Inr (h1, options)"
    and "\<not> truthy opts \<or> \<not> truthy (prop_of h opts ''returnOriginal'')"
  shows "asks_for_updated h1 options"
proof (cases "truthy opts")
  case False
  with assms show ?thesis
    by (auto simp: default_options_def asks_for_updated_def lookup_def)
next
  case True
  show ?thesis
  proof (cases "prop_of h opts ''returnOriginal'' = JUndefined")
    case False
    with True assms show ?thesis
      by (auto simp: default_options_def asks_for_updated_def)
  next
    case u: True
    show ?thesis
    proof (cases opts)
      case (JRef a)
      with True u assms show ?thesis
        by (auto simp: default_options_def asks_for_updated_def cell_heap_put_same lookup_put_same)
    next
      case (JObj ps)
      with True u assms show ?thesis
        by (auto simp: default_options_def asks_for_updated_def lookup_put_same)
    next
      case (JArr xs ps)
      with True u assms show ?thesis
        by (auto simp: default_options_def asks_for_updated_def lookup_put_same)
    qed (use True u assms in \<open>auto simp: default_options_def\<close>)
  qed
qed

lemma default_options_value:
  assumes "default_options h opts = Inr (h1, options)"
    and "\<not> truthy opts \<or> prop_of h opts ''returnOriginal'' = JUndefined"
  shows "prop_of h1 options ''returnOriginal'' = JBool False"
proof (cases "truthy opts")
  case False
  with assms show ?thesis
    by (auto simp: default_options_def lookup_def)
next
  case True
  with assms have u: "prop_of h opts ''returnOriginal'' = JUndefined" by simp
  show ?thesis
  proof (cases opts)
    case (JRef a)
    with True u assms show ?thesis
      by (auto simp: default_options_def cell_heap_put_same lookup_put_same)
  next
    case (JObj ps)
    with True u assms show ?thesis
      by (auto simp: default_options_def lookup_put_same)
  next
    case (JArr xs ps)
    with True u assms show ?thesis
      by (auto simp: default_options_def lookup_put_same)
  qed (use True u assms in \<open>auto simp: default_options_def\<close>)
qed

text \<open>
  Claim C6. On an initialised facade, \<open>findOneAndUpdate\<close> is called with no options, or with
  options whose \<open>returnOriginal\<close> is not truthy (they do not ask for the original
  document), and the call reaches the store. Then the options the store receives ask for
  the updated document (\<open>returnOriginal\<close> is \<open>false\<close> where the caller gave none), and with
  a store that answers such a request with the document as updated, the promise resolves
  with that document.
\<close>

theorem findOneAndUpdate_returns_updated:
  assumes "collection f = Some c"
    and "default_options h opts = Inr (h1, options)"
    and "\<not> truthy opts \<or> \<not> truthy (prop_of h opts ''returnOriginal'')"
    and "serialisable h1 fltr" and "serialisable h1 update" and "serialisable h1 options"
    and "\<forall>x. asks_for_updated h1 x \<longrightarrow>
           fst (drv s c ''findOneAndUpdate'' [fltr, update, x] h1) = Fulfilled after"
  shows "fst (findOneAndUpdate drv f s h fltr update opts) = Inr (Fulfilled after) \<and>
         asks_for_updated h1 options \<and>
         (\<not> truthy opts \<or> prop_of h opts ''returnOriginal'' = JUndefined \<longrightarrow>
            prop_of h1 options ''returnOriginal'' = JBool False) \<and>
         hd (fst (snd (findOneAndUpdate drv f s h fltr update opts))) =
           StoreCall ''findOneAndUpdate'' [fltr, update, options] h1"
proof -
  have asks: "asks_for_updated h1 options"
    using assms(2,3) by (rule default_options_asks)
  with assms(7) have d: "fst (drv s c ''findOneAndUpdate'' [fltr, update, options] h1) = Fulfilled after"
    by blast
  obtain p s1 where ps: "drv s c ''findOneAndUpdate'' [fltr, update, options] h1 = (p, s1)"
    by (cases "drv s c ''findOneAndUpdate'' [fltr, update, options] h1") auto
  with d have p: "p = Fulfilled after" by simp
  have r: "fst (findOneAndUpdate drv f s h fltr update opts) = Inr (Fulfilled after) \<and>
      hd (fst (snd (findOneAndUpdate drv f s h fltr update opts))) =
           StoreCall ''findOneAndUpdate'' [fltr, update, options] h1"
    using assms(1,2,4,5,6) ps p by (simp add: findOneAndUpdate_def json_def)
  have v: "\<not> truthy opts \<or> prop_of h opts ''returnOriginal'' = JUndefined \<longrightarrow>
            prop_of h1 options ''returnOriginal'' = JBool False"
    using default_options_value [OF assms(2)] by blast
  from r asks v show ?thesis by blast
qed

theorem findOneAndUpdate_returns_updated_witness:
  "collection users = Some (JStr ''users'') \<and>
   default_options [] JUndefined = Inr ([], JObj [(''returnOriginal'', JBool False)]) \<and>
   \<not> truthy JUndefined \<and>
   fst (findOneAndUpdate (versions (JStr ''before'') (JStr ''after'')) users () []
          (JObj [(''_id'', JStr ''42'')]) (JObj [(''$set'', JObj [(''name'', JStr ''Bea'')])])
          JUndefined) = Inr (Fulfilled (JStr ''after'')) \<and>
   default_options [[(''upsert'', JBool True)]] (JRef 0) =
     Inr ([[(''upsert'', JBool True), (''returnOriginal'', JBool False)]], JRef 0) \<and>
   \<not> truthy (prop_of [[(''upsert'', JBool True)]] (JRef 0) ''returnOriginal'') \<and>
   fst (findOneAndUpdate (versions (JStr ''before'') (JStr ''after'')) users ()
          [[(''upsert'', JBool True)]]
          (JObj [(''_id'', JStr ''42'')]) (JObj [(''$set'', JObj [(''name'', JStr ''Bea'')])])
          (JRef 0)) = Inr (Fulfilled (JStr ''after''))"
proof -
  let ?fltr = "JObj [(''_id'', JStr ''42'')]"
  let ?upd = "JObj [(''$set'', JObj [(''name'', JStr ''Bea'')])]"
  let ?h1 = "[[(''upsert'', JBool True), (''returnOriginal'', JBool False)]]"
  have a: "collection users = Some (JStr ''users'')"
    by (simp add: users_def)
  have b: "default_options [] JUndefined = Inr ([], JObj [(''returnOriginal'', JBool False)])"
    by (simp add: default_options_def)
  have b': "default_options [[(''upsert'', JBool True)]] (JRef 0) = Inr (?h1, JRef 0)"
    by (simp add: default_options_def cell_def lookup_def heap_put_def)
  have c: "\<not> truthy JUndefined \<or> \<not> truthy (prop_of [] JUndefined ''returnOriginal'')"
    by simp
  have c': "\<not> truthy (prop_of [[(''upsert'', JBool True)]] (JRef 0) ''returnOriginal'')"
    by (simp add: cell_def lookup_def)
  have d: "serialisable [] ?fltr" "serialisable [] ?upd"
      "serialisable [] (JObj [(''returnOriginal'', JBool False)])"
      "serialisable ?h1 ?fltr" "serialisable ?h1 ?upd" "serialisable ?h1 (JRef 0)"
    by (simp_all add: serialisable_def cell_def)
  have e: "\<forall>x. asks_for_updated h x \<longrightarrow>
             fst (versions (JStr ''before'') (JStr ''after'') () (JStr ''users'')
                    ''findOneAndUpdate'' [?fltr, ?upd, x] h) = Fulfilled (JStr ''after'')" for h
    by (simp add: versions_def)
  from findOneAndUpdate_returns_updated
         [where drv = "versions (JStr ''before'') (JStr ''after'')" and s = "()"
            and after = "JStr ''after''", OF a b c d(1,2,3) e]
       findOneAndUpdate_returns_updated
         [where drv = "versions (JStr ''before'') (JStr ''after'')" and s = "()"
            and after = "JStr ''after''", OF a b' disjI2 [OF c'] d(4,5,6) e]
       a b b' c'
  show ?thesis by simp
qed

section \<open>Properties of aggregate\<close>

text \<open>
  Claim C7. On an initialised facade, for every pipeline and options that the debug message
  can be made of, \<open>aggregate\<close> returns what the store's \<open>aggregate(pipeline, options)\<close>
  returns, and its trace is: the timer is stopped, the sink (if one is installed) gets the
  one record of the timer, and then the store is called with the pipeline and the options.
  The record is taken before the aggregation is asked for, whatever the store answers; from
  the call of the store on, no record reaches the sink.
\<close>

theorem aggregate_trace:
  assumes "collection f = Some c"
    and "serialisable h pipeline"
    and "serialisable h opts"
  shows "fst (aggregate agg f s h pipeline opts) = fst (agg s c pipeline opts h) \<and>
         fst (snd (aggregate agg f s h pipeline opts)) =
           TimerStop ''aggregate'' #
           (if debugger f = LoggingDebugger
            then [SinkLog \<lparr>r_type = ''mongo'', r_name = ''aggregate'',
                     r_message = [Lit ''pipeline='', Json pipeline, Lit '' options='', Json opts],
                     r_error = None\<rparr>]
            else []) @
           [StoreCall ''aggregate'' [pipeline, opts] h] \<and>
         filter is_record
           (dropWhile (\<lambda>e. \<not> is_store_call e) (fst (snd (aggregate agg f s h pipeline opts)))) = []"
  using assms
  by (cases "agg s c pipeline opts h"; cases "debugger f")
     (simp_all add: aggregate_def json_def timer_stop_def logDebug_def createTimer_def Let_def)

theorem aggregate_trace_witness:
  "collection logged_users = Some (JStr ''users'') \<and>
   serialisable [] (JArr [JObj [(''$match'', JObj [])]] []) \<and>
   serialisable [] JUndefined \<and>
   aggregate (\<lambda>s c p x h. (Inr (JStr ''cursor''), s)) logged_users () []
       (JArr [JObj [(''$match'', JObj [])]] []) JUndefined =
     (Inr (JStr ''cursor''),
      [TimerStop ''aggregate'',
       SinkLog \<lparr>r_type = ''mongo'', r_name = ''aggregate'',
                r_message = [Lit ''pipeline='', Json (JArr [JObj [(''$match'', JObj [])]] []),
                             Lit '' options='', Json JUndefined],
                r_error = None\<rparr>,
       StoreCall ''aggregate'' [JArr [JObj [(''$match'', JObj [])]] [], JUndefined] []],
      ())"
proof -
  have a: "collection logged_users = Some (JStr ''users'')"
    by (simp add: logged_users_def setDebugger_def users_def)
  have b: "serialisable [] (JArr [JObj [(''$match'', JObj [])]] [])"
    by (simp add: serialisable_def)
  have c: "serialisable [] JUndefined"
    by (simp add: serialisable_def)
  have d: "debugger logged_users = LoggingDebugger"
    by (simp add: logged_users_def setDebugger_def)
  have e: "snd (snd (aggregate (\<lambda>s c p x h. (Inr (JStr ''cursor''), s)) logged_users () []
       (JArr [JObj [(''$match'', JObj [])]] []) JUndefined)) = ()"
    by simp
  from aggregate_trace
         [where agg = "\<lambda>s c p x h. (Inr (JStr ''cursor''), s)" and s = "()", OF a b c] a b c d e
  show ?thesis by (simp add: prod_eq_iff)
qed

section \<open>Properties of findOneById\<close>

lemma store_calls_simps [simp]:
  "store_calls [] = []"
  "store_calls (e # es) = (if is_store_call e then e # store_calls es else store_calls es)"
  "store_calls (xs @ ys) = store_calls xs @ store_calls ys"
  by (simp_all add: store_calls_def)

lemma store_calls_stop [simp]: "store_calls (timer_stop f t) = []"
  by (simp add: timer_stop_def logDebug_def split: debugger.splits)

lemma store_calls_error [simp]: "store_calls (timer_error f t m) = []"
  by (simp add: timer_error_def logDebug_def split: debugger.splits)

lemma store_calls_catch [simp]: "store_calls (snd (catch_error f t h e)) = []"
  by (simp add: catch_error_def split: sum.splits)

text \<open>
  Claim C8, as stated, fails: the debug message is made of \<open>JSON.stringify(options)\<close> inside
  the promise. With options that hold themselves \<open>JSON.stringify\<close> throws, the promise is
  rejected and the store is never asked; with no options the same \<open>id\<close> is looked up and the
  promise resolves with the document.
\<close>

theorem findOneById_options_counterexample:
  "findOneById (answering (Fulfilled a_user)) users () [[(''self'', JRef 0)]] (JStr ''42'')
     (JRef 0) =
     (Rejected (type_error ''Converting circular structure to JSON''), [], ()) \<and>
   fst (findOneById (answering (Fulfilled a_user)) users () [[(''self'', JRef 0)]] (JStr ''42'')
     JUndefined) = Fulfilled a_user \<and>
   store_calls (fst (snd (findOneById (answering (Fulfilled a_user)) users ()
     [[(''self'', JRef 0)]] (JStr ''42'') JUndefined))) =
     [StoreCall ''findOne'' [JObj [(''_id'', JStr ''42'')]] [[(''self'', JRef 0)]]]"
  by (simp add: findOneById_def json_def serialisable_def cell_def users_def answering_def
        a_user_def store_calls_def timer_stop_def logDebug_def users_model_def constructor_def)

text \<open>
  Claim C8, amended. For every \<open>id\<close> and any two values of \<open>options\<close> that
  \<open>JSON.stringify\<close> accepts, \<open>findOneById\<close> makes the same calls of the store (the options
  are not among the arguments), settles its promise the same way and leaves the store in the
  same state. Options that \<open>JSON.stringify\<close> does not accept make the promise reject with
  its TypeError, and no call of the store is made.
\<close>

theorem findOneById_ignores_options:
  "(serialisable h o1 \<longrightarrow> serialisable h o2 \<longrightarrow>
      fst (findOneById drv f s h ident o1) = fst (findOneById drv f s h ident o2) \<and>
      store_calls (fst (snd (findOneById drv f s h ident o1))) =
        store_calls (fst (snd (findOneById drv f s h ident o2))) \<and>
      snd (snd (findOneById drv f s h ident o1)) = snd (snd (findOneById drv f s h ident o2))) \<and>
   (serialisable h ident \<longrightarrow> \<not> serialisable h o1 \<longrightarrow>
      findOneById drv f s h ident o1 =
        (Rejected (type_error ''Converting circular structure to JSON''), [], s))"
proof -
  have same: "fst (findOneById drv f s h ident o1) = fst (findOneById drv f s h ident o2) \<and>
      store_calls (fst (snd (findOneById drv f s h ident o1))) =
        store_calls (fst (snd (findOneById drv f s h ident o2))) \<and>
      snd (snd (findOneById drv f s h ident o1)) = snd (snd (findOneById drv f s h ident o2))"
    if o: "serialisable h o1" "serialisable h o2"
  proof (cases "serialisable h ident")
    case False
    then show ?thesis by (simp add: findOneById_def json_def)
  next
    case i: True
    show ?thesis
    proof (cases "collection f")
      case None
      with o i show ?thesis by (simp add: findOneById_def json_def)
    next
      case (Some c)
      obtain p s1 where d: "drv s c ''findOne'' [JObj [(''_id'', ident)]] h = (p, s1)"
        by (cases "drv s c ''findOne'' [JObj [(''_id'', ident)]] h") auto
      show ?thesis
      proof (cases p)
        case Pending
        with o i Some d show ?thesis by (simp add: findOneById_def json_def)
      next
        case (Fulfilled doc)
        with o i Some d show ?thesis
          by (simp add: findOneById_def json_def)
      next
        case (Rejected e)
        with o i Some d show ?thesis
          by (simp add: findOneById_def json_def case_prod_unfold catch_error_def
                split: sum.splits)
      qed
    qed
  qed
  have fails: "findOneById drv f s h ident o1 =
        (Rejected (type_error ''Converting circular structure to JSON''), [], s)"
    if "serialisable h ident" "\<not> serialisable h o1"
    using that by (simp add: findOneById_def json_def)
  from same fails show ?thesis by blast
qed

theorem findOneById_ignores_options_witness:
  "serialisable [] (JStr ''42'') \<and> serialisable [] JUndefined \<and>
   serialisable [] (JObj [(''fields'', JObj [(''name'', JNum 1)])]) \<and>
   fst (findOneById (answering (Fulfilled a_user)) users () [] (JStr ''42'') JUndefined) =
     Fulfilled a_user \<and>
   fst (findOneById (answering (Fulfilled a_user)) users () [] (JStr ''42'')
          (JObj [(''fields'', JObj [(''name'', JNum 1)])])) = Fulfilled a_user \<and>
   \<not> serialisable [[(''self'', JRef 0)]] (JRef 0) \<and>
   findOneById (answering (Fulfilled a_user)) users () [[(''self'', JRef 0)]] (JStr ''42'') (JRef 0) =
     (Rejected (type_error ''Converting circular structure to JSON''), [], ())"
proof -
  have a: "serialisable [] (JStr ''42'')" "serialisable [] JUndefined"
      "serialisable [] (JObj [(''fields'', JObj [(''name'', JNum 1)])])"
      "serialisable [[(''self'', JRef 0)]] (JStr ''42'')"
    by (simp_all add: serialisable_def)
  have b: "\<not> serialisable [[(''self'', JRef 0)]] (JRef 0)"
    by (simp add: serialisable_def cell_def)
  have c: "fst (findOneById (answering (Fulfilled a_user)) users () [] (JStr ''42'') JUndefined) =
     Fulfilled a_user"
    by (simp add: findOneById_def json_def serialisable_def users_def answering_def a_user_def)
  from findOneById_ignores_options
         [where drv = "answering (Fulfilled a_user)" and f = users and s = "()" and h = "[]"
            and ident = "JStr ''42''" and ?o1.0 = "JObj [(''fields'', JObj [(''name'', JNum 1)])]"
            and ?o2.0 = JUndefined]
       findOneById_ignores_options
         [where drv = "answering (Fulfilled a_user)" and f = users and s = "()"
            and h = "[[(''self'', JRef 0)]]"
            and ident = "JStr ''42''" and ?o1.0 = "JRef 0" and ?o2.0 = JUndefined]
       a b c
  show ?thesis by simp
qed

end
